theory Spec2Isabelle
  imports Complex_Main "HOL-Library.Word" "HOL-Library.List_Lexorder"
begin

section \<open>Python strings\<close>

text \<open>
  A Python \<open>str\<close> is a sequence of Unicode code points, so it is modelled as a list of
  naturals. Equality, \<open>split\<close>, \<open>strip\<close>, \<open>join\<close> and \<open>sorted\<close> all work on code points,
  and the lexicographic order on lists is the order Python compares strings by.
  \<open>u\<close> turns an ASCII literal into such a string; characters beyond ASCII are written as
  their code point (for example \<open>[8212]\<close> for the em dash).
\<close>

type_synonym ustr = "nat list"

definition u :: "string \<Rightarrow> ustr" where
  "u s = map of_char s"

text \<open>
  \<open>str.isspace\<close> for one character: the code points CPython treats as whitespace
  (bidirectional type WS, B or S, or category Zs).
\<close>

definition is_space :: "nat \<Rightarrow> bool" where
  "is_space c = (c \<in> set ([9, 10, 11, 12, 13, 28, 29, 30, 31, 32, 133, 160, 5760]
      @ [8192 ..< 8203] @ [8232, 8233, 8239, 8287, 12288]))"

text \<open>\<open>s.strip()\<close>: drop leading and trailing whitespace.\<close>

definition strip :: "ustr \<Rightarrow> ustr" where
  "strip s = rev (dropWhile is_space (rev (dropWhile is_space s)))"

text \<open>
  \<open>s.split(sep)\<close> for a one-character separator: every occurrence splits, empty pieces
  are kept, and the empty string gives one empty piece.
\<close>

fun str_split :: "nat \<Rightarrow> ustr \<Rightarrow> ustr list" where
  "str_split sep [] = [[]]"
| "str_split sep (c # cs) =
     (if c = sep then [] # str_split sep cs
      else (case str_split sep cs of
              [] \<Rightarrow> [[c]]
            | piece # pieces \<Rightarrow> (c # piece) # pieces))"

text \<open>\<open>sep.join(xs)\<close>.\<close>

fun str_join :: "ustr \<Rightarrow> ustr list \<Rightarrow> ustr" where
  "str_join sep [] = []"
| "str_join sep [x] = x"
| "str_join sep (x # y # ys) = x @ sep @ str_join sep (y # ys)"

text \<open>
  \<open>s.upper()\<close> and \<open>s.lower()\<close> on ASCII letters; other code points are left as they are.
  The program applies \<open>upper\<close> only to the hexadecimal text of a UUID, which is ASCII.
  The tag index takes its lowercasing function as a parameter, and \<open>ascii_lower\<close> is the
  instance used on ASCII catalogs.
\<close>

definition ascii_upper :: "ustr \<Rightarrow> ustr" where
  "ascii_upper s = map (\<lambda>c. if 97 \<le> c \<and> c \<le> 122 then c - 32 else c) s"

definition ascii_lower :: "ustr \<Rightarrow> ustr" where
  "ascii_lower s = map (\<lambda>c. if 65 \<le> c \<and> c \<le> 90 then c + 32 else c) s"

section \<open>Data model\<close>

text \<open>The records of \<open>data/CustomerOrders.json\<close> and \<open>data/ProductCatalog.json\<close>.\<close>

record order =
  Email :: ustr
  OrderNumber :: ustr
  Status :: ustr
  TrackingNumber :: ustr

record product =
  ProductName :: ustr
  Description :: ustr
  Tags :: "ustr list"

text \<open>A chat message \<open>{"role": ..., "content": ...}\<close>.\<close>

datatype role = System | User | Assistant

record turn =
  role :: role
  content :: ustr

text \<open>The arguments of one \<open>client.chat.completions.create\<close> call.\<close>

record request =
  model :: ustr
  messages :: "turn list"
  temperature :: rat

text \<open>
  What a \<open>create\<close> call does: it raises an exception \<open>e\<close> (an instance of \<open>Exception\<close>,
  as the failures of the transport and of the provider are; kept as the text \<open>str(e)\<close>),
  or it returns a response, kept as the \<open>message.content\<close> of each of its choices
  (\<open>None\<close> when the provider sent no text).
\<close>

datatype api_result = ApiRaise ustr | ApiReturn "ustr option list"

text \<open>
  The tag index is a \<open>defaultdict(list)\<close>. Python dictionaries keep insertion order, so
  it is an association list with distinct keys.
\<close>

type_synonym tag_index = "(ustr \<times> product list) list"

text \<open>
  The fields of \<open>SierraAgent\<close>; \<open>self.model\<close> is \<open>model_name\<close> here, and the client
  object \<open>self.client\<close> is the provider of the world below.
\<close>

record agent =
  model_name :: ustr
  system_prompt :: ustr
  orders :: "order list"
  products :: "product list"
  history :: "turn list"
  tag_index :: tag_index

text \<open>
  Everything outside the agent that one turn touches: the language-model provider (the
  outcome of its n-th call, and the requests made so far), the console (the lines still
  to be read, and what has been written), the Pacific local hour that
  \<open>datetime.now(pytz.timezone("US/Pacific")).hour\<close> reads, and the value that
  \<open>uuid.uuid4()\<close> draws.
\<close>

record world =
  api :: "nat \<Rightarrow> api_result"
  api_calls :: "request list"
  stdin :: "ustr list"
  stdout :: "ustr list"
  hour :: nat
  uuid :: "128 word"

datatype error = EOFError

section \<open>Console and provider\<close>

definition print :: "ustr \<Rightarrow> world \<Rightarrow> world" where
  "print s w = w\<lparr>stdout := stdout w @ [s @ [10]]\<rparr>"

text \<open>\<open>input(prompt)\<close> writes the prompt and reads a line; at end of input it raises.\<close>

definition input :: "ustr \<Rightarrow> world \<Rightarrow> (error + ustr) \<times> world" where
  "input prompt w =
     (case stdin w of
        [] \<Rightarrow> (Inl EOFError, w\<lparr>stdout := stdout w @ [prompt]\<rparr>)
      | line # rest \<Rightarrow> (Inr line, w\<lparr>stdin := rest, stdout := stdout w @ [prompt]\<rparr>))"

definition create :: "request \<Rightarrow> world \<Rightarrow> api_result \<times> world" where
  "create req w = (api w (length (api_calls w)), w\<lparr>api_calls := api_calls w @ [req]\<rparr>)"

text \<open>
  The expression \<open>create(...).choices[0].message.content.strip()\<close> inside a \<open>try\<close>:
  \<open>Inl\<close> carries \<open>str(e)\<close> of the exception raised (by the call, by \<open>[0]\<close> on an empty
  list, or by \<open>.strip()\<close> on \<open>None\<close>), \<open>Inr\<close> the stripped text.
\<close>

definition completion_text :: "api_result \<Rightarrow> ustr + ustr" where
  "completion_text r =
     (case r of
        ApiRaise e \<Rightarrow> Inl e
      | ApiReturn [] \<Rightarrow> Inl (u ''list index out of range'')
      | ApiReturn (None # _) \<Rightarrow> Inl ([39] @ u ''NoneType' object has no attribute 'strip'' @ [39])
      | ApiReturn (Some text # _) \<Rightarrow> Inr (strip text))"

section \<open>The gateway: \<open>call_gpt\<close> and \<open>call_gpt_and_update_history\<close>\<close>

definition gateway_apology :: ustr where
  "gateway_apology = u ''Oops! Looks like I'm having trouble reaching the trailhead ''
     @ [129406] @ u ''. Try again in a moment?''"

definition call_gpt :: "agent \<Rightarrow> ustr \<Rightarrow> rat \<Rightarrow> world \<Rightarrow> ustr \<times> world" where
  "call_gpt a prompt temp w =
     (case create \<lparr>model = model_name a,
                   messages = [\<lparr>role = User, content = prompt\<rparr>],
                   temperature = temp\<rparr> w of
        (r, w1) \<Rightarrow>
          (case completion_text r of
             Inr text \<Rightarrow> (text, w1)
           | Inl e \<Rightarrow> (gateway_apology, print (u ''[GPT error] '' @ e) w1)))"

definition chat_apology :: ustr where
  "chat_apology = u ''Something went off trail '' @ [127794, 8212]
     @ u '' please try again shortly!''"

definition call_gpt_and_update_history :: "agent \<Rightarrow> ustr \<Rightarrow> world \<Rightarrow> ustr \<times> agent \<times> world" where
  "call_gpt_and_update_history a new_user_message w =
     (let msgs = [\<lparr>role = System, content = system_prompt a\<rparr>]
                 @ history a
                 @ [\<lparr>role = User, content = new_user_message\<rparr>]
      in case create \<lparr>model = model_name a, messages = msgs, temperature = 0.7\<rparr> w of
        (r, w1) \<Rightarrow>
          (case completion_text r of
             Inl e \<Rightarrow> (chat_apology, a, print (u ''[GPT error] '' @ e) w1)
           | Inr reply \<Rightarrow>
               (reply,
                a\<lparr>history := history a
                     @ [\<lparr>role = User, content = new_user_message\<rparr>]
                     @ [\<lparr>role = Assistant, content = reply\<rparr>]\<rparr>,
                w1)))"

section \<open>Startup: \<open>__init__\<close>\<close>

text \<open>
  The operations of \<open>defaultdict(list)\<close> that the program uses. \<open>d.keys()\<close> lists the
  keys in insertion order; \<open>key in d\<close> only looks;
  \<open>d[key]\<close> inserts an empty list under a missing key before it returns it, so it gives
  back the dictionary too; \<open>d[key].append(x)\<close> is that lookup followed by an append to
  the stored list.
\<close>

definition dd_keys :: "tag_index \<Rightarrow> ustr list" where
  "dd_keys d = map fst d"

definition dd_contains :: "tag_index \<Rightarrow> ustr \<Rightarrow> bool" where
  "dd_contains d key = (key \<in> set (dd_keys d))"

definition dd_getitem :: "tag_index \<Rightarrow> ustr \<Rightarrow> product list \<times> tag_index" where
  "dd_getitem d key =
     (case map_of d key of
        Some ps \<Rightarrow> (ps, d)
      | None \<Rightarrow> ([], d @ [(key, [])]))"

fun dd_store :: "tag_index \<Rightarrow> ustr \<Rightarrow> product list \<Rightarrow> tag_index" where
  "dd_store [] key ps = [(key, ps)]"
| "dd_store ((k, v) # d) key ps =
     (if k = key then (k, ps) # d else (k, v) # dd_store d key ps)"

definition dd_append :: "tag_index \<Rightarrow> ustr \<Rightarrow> product \<Rightarrow> tag_index" where
  "dd_append d key p =
     (case dd_getitem d key of (ps, d1) \<Rightarrow> dd_store d1 key (ps @ [p]))"

text \<open>
  The two loops that fill the index. \<open>lower\<close> is \<open>str.lower\<close>, whose Unicode case tables
  are not part of the program.
\<close>

fun index_tags :: "(ustr \<Rightarrow> ustr) \<Rightarrow> product \<Rightarrow> ustr list \<Rightarrow> tag_index \<Rightarrow> tag_index" where
  "index_tags lower p [] d = d"
| "index_tags lower p (tag # tags) d =
     (let normalized_tag = lower tag
      in index_tags lower p tags (dd_append d normalized_tag p))"

fun index_products :: "(ustr \<Rightarrow> ustr) \<Rightarrow> product list \<Rightarrow> tag_index \<Rightarrow> tag_index" where
  "index_products lower [] d = d"
| "index_products lower (p # ps) d =
     index_products lower ps (index_tags lower p (Tags p) d)"

definition init :: "(ustr \<Rightarrow> ustr) \<Rightarrow> order list \<Rightarrow> product list \<Rightarrow> agent" where
  "init lower orders_json products_json =
     \<lparr>model_name = u ''gpt-4o'',
      system_prompt =
          u ''You are Sierra, an adventurous and cheerful outdoor gear expert. ''
        @ u ''Use friendly, trail-inspired language, emojis like ''
        @ [127957, 65039, 127794, 9968, 65039]
        @ u '', and stay helpful and CONCISE. 3 sentence limit for all responses. ''
        @ u ''If a question is unrelated to Sierra Outfitters, still answer politely but stay in character.'',
      orders = orders_json,
      products = products_json,
      history = [],
      tag_index = index_products lower products_json []\<rparr>"

section \<open>The intent handlers\<close>

subsection \<open>\<open>handle_order_info\<close>\<close>

definition order_not_found :: ustr where
  "order_not_found = u ''Couldn't find an order with that email and order number.''"

text \<open>The lookup and the reply, once both lines have been read.\<close>

definition order_info :: "order list \<Rightarrow> ustr \<Rightarrow> ustr \<Rightarrow> ustr" where
  "order_info os email order_number =
     (case find (\<lambda>o'. Email o' = email \<and> OrderNumber o' = order_number) os of
        Some match \<Rightarrow>
          (let status = Status match; tracking = TrackingNumber match
           in u ''Order '' @ order_number @ u '' is '' @ status @ u ''. ''
            @ u ''Tracking link: https://tools.usps.com/go/TrackConfirmAction?tLabels='' @ tracking)
      | None \<Rightarrow> order_not_found)"

definition handle_order_info :: "agent \<Rightarrow> ustr \<Rightarrow> world \<Rightarrow> (error + ustr) \<times> world" where
  "handle_order_info a query w =
     (case input (u ''Please provide your email: '') w of
        (Inl e, w1) \<Rightarrow> (Inl e, w1)
      | (Inr email, w1) \<Rightarrow>
          (case input (u ''Please provide your order number: '') w1 of
             (Inl e, w2) \<Rightarrow> (Inl e, w2)
           | (Inr order_number, w2) \<Rightarrow> (Inr (order_info (orders a) email order_number), w2)))"

subsection \<open>\<open>handle_product_recommendation\<close>\<close>

definition tag_selection_prompt :: "ustr \<Rightarrow> ustr \<Rightarrow> ustr" where
  "tag_selection_prompt tag_csv query =
       u ''You are an assistant helping customers find gear.\<newline>''
     @ u ''Available product tags are: '' @ tag_csv @ u ''.\<newline>''
     @ u ''User said: '' @ [39] @ query @ [39] @ u ''\<newline>''
     @ u ''Choose up to 8 relevant tags from the list based on the user's request.''
     @ u ''Respond with only the chosen tags, as a comma-separated list.''"

definition fallback :: ustr where
  "fallback = u ''Product Status: Couldn't find anything that matches. ''
     @ u ''Ask the user to describe what they're looking for in a bit more detail.''"

definition product_selection_prompt :: "ustr \<Rightarrow> ustr \<Rightarrow> ustr" where
  "product_selection_prompt query summary_text =
       u ''You are an assistant helping customers find gear.\<newline>''
     @ u ''User said: '' @ [39] @ query @ [39] @ u ''\<newline>''
     @ u ''Available products: '' @ summary_text
     @ u ''Choose ONE of the products that best matches the user's request.\<newline>''
     @ u ''Response format:''
     @ u ''Recommended Purchase for Customer: Product Name - Product Description\<newline>''
     @ u ''If nothing relevant is available, return the following text: '' @ fallback"

text \<open>The loop \<open>for tag in valid_tags: matched_products.extend(self.tag_index[tag])\<close>.\<close>

fun gather :: "tag_index \<Rightarrow> ustr list \<Rightarrow> product list \<Rightarrow> product list \<times> tag_index" where
  "gather d [] matched_products = (matched_products, d)"
| "gather d (tag # tags) matched_products =
     (case dd_getitem d tag of (ps, d1) \<Rightarrow> gather d1 tags (matched_products @ ps))"

definition handle_product_recommendation :: "agent \<Rightarrow> ustr \<Rightarrow> world \<Rightarrow> ustr \<times> agent \<times> world" where
  "handle_product_recommendation a query w =
     (let tag_list = sort (dd_keys (tag_index a));
          tag_csv = str_join (u '', '') tag_list
      in case call_gpt a (tag_selection_prompt tag_csv query) 0 w of
        (tag_response, w1) \<Rightarrow>
          (let extracted_tags = map strip (str_split 44 tag_response);
               valid_tags = filter (dd_contains (tag_index a)) extracted_tags
           in case gather (tag_index a) valid_tags [] of
             (matched_products, d1) \<Rightarrow>
               (let a1 = a\<lparr>tag_index := d1\<rparr>
                in if matched_products = [] then (fallback, a1, w1)
                   else
                     (let summary_text = str_join (u ''\<newline>'')
                            (map (\<lambda>p. ProductName p @ u '' '' @ [8212] @ u '' '' @ Description p)
                                 matched_products)
                      in case call_gpt a1 (product_selection_prompt query summary_text) 0 w1 of
                        (product_selection_response, w2) \<Rightarrow>
                          (product_selection_response, a1, w2)))))"

subsection \<open>\<open>handle_early_riser_promo\<close>\<close>

text \<open>
  \<open>str(uuid.uuid4())\<close>: the 128-bit value as 32 lowercase hexadecimal digits, grouped
  8-4-4-4-12 with hyphens.
\<close>

definition hex_digit :: "nat \<Rightarrow> nat" where
  "hex_digit d = (if d < 10 then 48 + d else 87 + d)"

definition hex32 :: "128 word \<Rightarrow> ustr" where
  "hex32 x = map (\<lambda>i. hex_digit (unat x div 16 ^ (31 - i) mod 16)) [0 ..< 32]"

definition uuid_str :: "128 word \<Rightarrow> ustr" where
  "uuid_str x =
     (let h = hex32 x
      in take 8 h @ u ''-'' @ take 4 (drop 8 h) @ u ''-'' @ take 4 (drop 12 h) @ u ''-''
       @ take 4 (drop 16 h) @ u ''-'' @ drop 20 h)"

definition not_qualified :: ustr where
  "not_qualified = u ''The Early Riser promotion only runs from 8'' @ [8211]
     @ u ''10 AM Pacific Time. This user does not currently qualify.''"

definition handle_early_riser_promo :: "world \<Rightarrow> ustr" where
  "handle_early_riser_promo w =
     (if 8 \<le> hour w \<and> hour w < 10 then
        (let code = u ''SIERRA-'' @ ascii_upper (take 4 (uuid_str (uuid w)))
         in u ''This user qualifies for the Early Riser promotion! ''
          @ u ''They may use discount code '' @ code @ u '' for 10% off.'')
      else not_qualified)"

section \<open>The router: \<open>handle\<close>\<close>

definition intent_prompt :: "ustr \<Rightarrow> ustr" where
  "intent_prompt user_input =
       u ''Classify the user's message into one or more of the following intent categories:\<newline>\<newline>''
     @ u ''- order: The user is asking about the status of a specific order they have already placed. ''
     @ u ''This includes questions about tracking, shipping, delivery dates, or order numbers.\<newline>''
     @ u ''- recommendation: The user is asking what to buy, looking for gear suggestions, or requesting ''
     @ u ''something similar to a product or need (e.g. 'any good hiking backpacks?').\<newline>''
     @ u ''- early_riser: The user is asking for a discount, promotional code, or any deal. ''
     @ u ''This includes general questions about promotions or requests for discounts.\<newline>''
     @ u ''- general: The message doesn'' @ [8217] @ u ''t fit the above '' @ [8212]
     @ u '' e.g. general conversation, brand questions, greetings, etc.\<newline>\<newline>''
     @ u ''User message: '' @ [39] @ user_input @ [39] @ u ''\<newline>\<newline>''
     @ u ''Respond with a comma-separated list of one or more intents from the list above. ''
     @ u ''Use only the exact labels: order, recommendation, early_riser, general.''"

text \<open>
  \<open>[intent.strip() for intent in intent_response.split(",") if intent.strip()]\<close>
\<close>

definition parse_intents :: "ustr \<Rightarrow> ustr list" where
  "parse_intents intent_response =
     map strip (filter (\<lambda>intent. strip intent \<noteq> []) (str_split 44 intent_response))"

text \<open>
  The three \<open>if ... in intents: responses.append(...)\<close> statements, in the order of the
  source. An exception of a handler ends the turn with the state reached so far.
\<close>

definition run_handlers ::
  "agent \<Rightarrow> ustr list \<Rightarrow> ustr \<Rightarrow> world \<Rightarrow> (error + ustr list) \<times> agent \<times> world" where
  "run_handlers a intents user_input w =
     (case (if u ''order'' \<in> set intents
            then (case handle_order_info a user_input w of
                    (Inl e, w1) \<Rightarrow> (Inl e, w1)
                  | (Inr r, w1) \<Rightarrow> (Inr [r], w1))
            else (Inr [], w)) of
        (Inl e, w1) \<Rightarrow> (Inl e, a, w1)
      | (Inr responses1, w1) \<Rightarrow>
          (case (if u ''recommendation'' \<in> set intents
                 then (case handle_product_recommendation a user_input w1 of
                         (r, a2, w2) \<Rightarrow> (responses1 @ [r], a2, w2))
                 else (responses1, a, w1)) of
             (responses2, a2, w2) \<Rightarrow>
               (let responses3 = (if u ''early_riser'' \<in> set intents
                                  then responses2 @ [handle_early_riser_promo w2]
                                  else responses2)
                in (Inr responses3, a2, w2))))"

definition compiled_prompt :: "ustr \<Rightarrow> ustr \<Rightarrow> ustr" where
  "compiled_prompt user_input additional_info =
       u ''User question: '' @ user_input @ u ''. ''
     @ u ''Use the following information to best answer the user's question: '' @ additional_info"

definition handle :: "agent \<Rightarrow> ustr \<Rightarrow> world \<Rightarrow> (error + ustr) \<times> agent \<times> world" where
  "handle a user_input w =
     (case call_gpt a (intent_prompt user_input) 0 w of
        (intent_response, w1) \<Rightarrow>
          (let intents = parse_intents intent_response
           in case run_handlers a intents user_input w1 of
             (Inl e, a2, w2) \<Rightarrow> (Inl e, a2, w2)
           | (Inr responses, a2, w2) \<Rightarrow>
               (if responses = [] \<or> u ''general'' \<in> set intents then
                  (case call_gpt_and_update_history a2 user_input w2 of
                     (reply, a3, w3) \<Rightarrow> (Inr reply, a3, w3))
                else
                  (let additional_info = str_join (u ''\<newline>'') responses
                   in case call_gpt_and_update_history a2
                             (compiled_prompt user_input additional_info) w2 of
                     (reply, a3, w3) \<Rightarrow> (Inr reply, a3, w3)))))"

section \<open>Notions of the specification\<close>

text \<open>An uppercase alphanumeric character: a digit or one of \<open>A\<close> to \<open>Z\<close>.\<close>

definition upper_alnum :: "nat \<Rightarrow> bool" where
  "upper_alnum c = (48 \<le> c \<and> c \<le> 57 \<or> 65 \<le> c \<and> c \<le> 90)"

text \<open>The list stored under a key, empty when the key is absent.\<close>

definition lookup :: "tag_index \<Rightarrow> ustr \<Rightarrow> product list" where
  "lookup d key = (case map_of d key of None \<Rightarrow> [] | Some ps \<Rightarrow> ps)"

text \<open>
  What the index is meant to hold under a key: the products of the catalog, in catalog
  order, each once for every one of its tags that lowercases to the key.
\<close>

definition tagged :: "(ustr \<Rightarrow> ustr) \<Rightarrow> product list \<Rightarrow> ustr \<Rightarrow> product list" where
  "tagged lower ps key = concat (map (\<lambda>p. replicate (count_list (map lower (Tags p)) key) p) ps)"

text \<open>
  The four labels of the taxonomy, and a token that differs from one of them only in
  case: lowercasing it gives a label, and it is not lowercase itself.
\<close>

definition intent_labels :: "ustr list" where
  "intent_labels = [u ''order'', u ''recommendation'', u ''early_riser'', u ''general'']"

definition case_variant :: "ustr \<Rightarrow> bool" where
  "case_variant t = (ascii_lower t \<in> set intent_labels \<and> t \<noteq> ascii_lower t)"

section \<open>Example data\<close>

definition john_order :: order where
  "john_order = \<lparr>Email = u ''john.doe@example.com'', OrderNumber = u ''#W001'',
                  Status = u ''delivered'', TrackingNumber = u ''TRK123456789''\<rparr>"

definition jane_order :: order where
  "jane_order = \<lparr>Email = u ''jane.smith@example.com'', OrderNumber = u ''#W002'',
                  Status = u ''in-transit'', TrackingNumber = u ''TRK987654321''\<rparr>"

definition example_orders :: "order list" where
  "example_orders = [john_order, jane_order]"

definition backpack :: product where
  "backpack = \<lparr>ProductName = u ''Backcountry Blaze Backpack'',
                Description = u ''A rugged pack for long trails.'',
                Tags = [u ''Backpack'', u ''Hiking'']\<rparr>"

definition poles :: product where
  "poles = \<lparr>ProductName = u ''Summit Trekking Poles'',
             Description = u ''Light poles for steep climbs.'',
             Tags = [u ''hiking'', u ''Poles'', u ''HIKING'']\<rparr>"

definition example_products :: "product list" where
  "example_products = [backpack, poles]"

definition example_agent :: agent where
  "example_agent = init ascii_lower example_orders example_products"

text \<open>A provider that answers its calls from a script and is unreachable afterwards.\<close>

definition provider :: "api_result list \<Rightarrow> nat \<Rightarrow> api_result" where
  "provider script n =
     (if n < length script then script ! n else ApiRaise (u ''Connection error.''))"

definition example_world :: "api_result list \<Rightarrow> ustr list \<Rightarrow> nat \<Rightarrow> world" where
  "example_world script lines h =
     \<lparr>api = provider script, api_calls = [], stdin = lines, stdout = [], hour = h,
      uuid = 0x3f2a9c4e1b7d4e0fa1b2c3d4e5f60718\<rparr>"

text \<open>The console lines and the provider scripts of the examples.\<close>

definition question :: ustr where
  "question = u ''Where is my order?''"

definition john_lines :: "ustr list" where
  "john_lines = [u ''john.doe@example.com'', u ''#W001'']"

definition order_general_world :: world where
  "order_general_world =
     example_world [ApiReturn [Some (u ''order, general'')],
                    ApiReturn [Some (u '' It was delivered! '')]] john_lines 9"

definition promo_order_world :: world where
  "promo_order_world =
     example_world [ApiReturn [Some (u ''early_riser, order'')],
                    ApiReturn [Some (u '' Howdy! '')]] john_lines 9"

definition case_variant_world :: world where
  "case_variant_world =
     example_world [ApiReturn [Some (u ''Order, GENERAL'')],
                    ApiReturn [Some (u '' Howdy! '')]] john_lines 9"

definition mixed_case_world :: world where
  "mixed_case_world =
     example_world [ApiReturn [Some (u ''GENERAL, order'')],
                    ApiReturn [Some (u '' Howdy! '')]] john_lines 9"

definition tents_world :: world where
  "tents_world = example_world [ApiReturn [Some (u ''tents, Hiking'')]] [] 9"

definition poles_world :: world where
  "poles_world =
     example_world [ApiReturn [Some (u ''hiking, poles'')],
                    ApiReturn [Some (u ''Recommended Purchase for Customer: Summit Trekking Poles'')]]
       [] 9"

definition recommendation_world :: world where
  "recommendation_world =
     example_world [ApiReturn [Some (u ''recommendation'')],
                    ApiReturn [Some (u ''hiking, poles'')],
                    ApiReturn [Some (u ''Recommended Purchase for Customer: Summit Trekking Poles'')],
                    ApiReturn [Some (u '' Howdy! '')]] [] 9"

section \<open>Literals\<close>

lemma u_eq_iff: "u s = u t \<longleftrightarrow> s = t"
  by (simp add: u_def inj_on_def)

lemma u_append: "u s @ u t = u (s @ t)" "u s @ u t @ r = u (s @ t) @ r"
  by (simp_all add: u_def)

section \<open>The gateway\<close>

text \<open>
  C8: whatever the provider call does, \<open>call_gpt\<close> returns a string. If the call raises
  an exception \<open>e\<close>, the result is the fixed apology and \<open>[GPT error] e\<close> is printed; a
  response without choices or without text is caught in the same way; on success the
  result is the text of the first choice, stripped. The result type has no error
  component: nothing reaches the caller but the string.
\<close>

theorem call_gpt_converts_failure:
  "(\<forall>e. api w (length (api_calls w)) = ApiRaise e \<longrightarrow>
        fst (call_gpt a prompt temp w) = gateway_apology
      \<and> stdout (snd (call_gpt a prompt temp w)) = stdout w @ [u ''[GPT error] '' @ e @ u ''\<newline>''])
 \<and> (api w (length (api_calls w)) = ApiReturn [] \<longrightarrow>
        fst (call_gpt a prompt temp w) = gateway_apology)
 \<and> (\<forall>rest. api w (length (api_calls w)) = ApiReturn (None # rest) \<longrightarrow>
        fst (call_gpt a prompt temp w) = gateway_apology)
 \<and> (\<forall>text rest. api w (length (api_calls w)) = ApiReturn (Some text # rest) \<longrightarrow>
        fst (call_gpt a prompt temp w) = strip text
      \<and> stdout (snd (call_gpt a prompt temp w)) = stdout w)"
  by (auto simp: call_gpt_def create_def print_def completion_text_def u_def)

text \<open>
  C2: the persona chat call is transactional on the history. On success the history
  grows by the new message as a user turn and the reply as an assistant turn; when the
  call raises or its response has no text, the history is the one before and the fixed
  apology is returned.
\<close>

theorem chat_history_transactional:
  "(\<forall>text rest. api w (length (api_calls w)) = ApiReturn (Some text # rest) \<longrightarrow>
        fst (call_gpt_and_update_history a msg w) = strip text
      \<and> history (fst (snd (call_gpt_and_update_history a msg w))) =
          history a @ [\<lparr>role = User, content = msg\<rparr>, \<lparr>role = Assistant, content = strip text\<rparr>])
 \<and> (\<forall>e. api w (length (api_calls w)) = ApiRaise e \<longrightarrow>
        fst (call_gpt_and_update_history a msg w) = chat_apology
      \<and> history (fst (snd (call_gpt_and_update_history a msg w))) = history a)
 \<and> (api w (length (api_calls w)) = ApiReturn [] \<longrightarrow>
        fst (call_gpt_and_update_history a msg w) = chat_apology
      \<and> history (fst (snd (call_gpt_and_update_history a msg w))) = history a)
 \<and> (\<forall>rest. api w (length (api_calls w)) = ApiReturn (None # rest) \<longrightarrow>
        fst (call_gpt_and_update_history a msg w) = chat_apology
      \<and> history (fst (snd (call_gpt_and_update_history a msg w))) = history a)"
  by (auto simp: call_gpt_and_update_history_def create_def completion_text_def Let_def)


section \<open>Order lookup\<close>

lemma find_none: "(\<forall>x\<in>set xs. \<not> P x) \<Longrightarrow> find P xs = None"
  by (induction xs) auto

lemma find_first: "(\<forall>x\<in>set pre. \<not> P x) \<Longrightarrow> P x \<Longrightarrow> find P (pre @ x # post) = Some x"
  by (induction pre) auto

text \<open>
  C4: order lookup is exact-match only. With the email and the order number read from
  the console, the handler returns the fixed not-found string when no stored order has
  exactly that email and that order number. When a stored order has both (and no order
  before it in the store has, which is always so where the pair identifies the order),
  the handler returns the text made of the order number, that order's stored status
  and the carrier URL ending in its stored tracking number. The comparison is equality
  of strings: nothing is lowercased or trimmed.
\<close>

theorem order_lookup_exact_match:
  assumes "stdin w = email # order_number # rest"
  shows "((\<forall>x\<in>set (orders a). \<not> (Email x = email \<and> OrderNumber x = order_number)) \<longrightarrow>
            fst (handle_order_info a query w) = Inr order_not_found)
       \<and> (\<forall>pre x post.
            orders a = pre @ x # post
            \<and> (\<forall>y\<in>set pre. \<not> (Email y = email \<and> OrderNumber y = order_number))
            \<and> Email x = email \<and> OrderNumber x = order_number \<longrightarrow>
            fst (handle_order_info a query w) =
              Inr (u ''Order '' @ OrderNumber x @ u '' is '' @ Status x @ u ''. Tracking link: ''
                   @ u ''https://tools.usps.com/go/TrackConfirmAction?tLabels='' @ TrackingNumber x))"
proof -
  have run: "fst (handle_order_info a query w) = Inr (order_info (orders a) email order_number)"
    using assms by (simp add: handle_order_info_def input_def)
  show ?thesis
  proof (intro conjI allI impI)
    assume "\<forall>x\<in>set (orders a). \<not> (Email x = email \<and> OrderNumber x = order_number)"
    then have "find (\<lambda>o'. Email o' = email \<and> OrderNumber o' = order_number) (orders a) = None"
      by (rule find_none)
    then show "fst (handle_order_info a query w) = Inr order_not_found"
      by (simp add: run order_info_def)
  next
    fix pre x post
    assume h: "orders a = pre @ x # post
            \<and> (\<forall>y\<in>set pre. \<not> (Email y = email \<and> OrderNumber y = order_number))
            \<and> Email x = email \<and> OrderNumber x = order_number"
    then have "find (\<lambda>o'. Email o' = email \<and> OrderNumber o' = order_number) (orders a) = Some x"
      using find_first [of pre "\<lambda>o'. Email o' = email \<and> OrderNumber o' = order_number" x post]
      by simp
    then show "fst (handle_order_info a query w) =
              Inr (u ''Order '' @ OrderNumber x @ u '' is '' @ Status x @ u ''. Tracking link: ''
                   @ u ''https://tools.usps.com/go/TrackConfirmAction?tLabels='' @ TrackingNumber x)"
      using h by (simp add: run order_info_def u_def)
  qed
qed

section \<open>The Early Riser promotion\<close>

lemma hex_digit_upper:
  "d < 16 \<Longrightarrow>
   upper_alnum (if 97 \<le> hex_digit d \<and> hex_digit d \<le> 122 then hex_digit d - 32 else hex_digit d)"
  by (auto simp: hex_digit_def upper_alnum_def)

lemma upper_hex_all:
  "\<forall>c\<in>set (ascii_upper (map (\<lambda>i. hex_digit (f i mod 16)) js)). upper_alnum c"
  by (induction js) (simp_all add: ascii_upper_def hex_digit_upper)

lemma take4_uuid_str:
  "take 4 (uuid_str x) = map (\<lambda>i. hex_digit (unat x div 16 ^ (31 - i) mod 16)) [0 ..< 4]"
proof -
  have "length (hex32 x) = 32" by (simp add: hex32_def)
  then have "take 4 (uuid_str x) = take 4 (hex32 x)"
    by (simp add: uuid_str_def Let_def)
  also have "\<dots> = map (\<lambda>i. hex_digit (unat x div 16 ^ (31 - i) mod 16)) (take 4 [0 ..< 32])"
    unfolding hex32_def take_map ..
  also have "take 4 [0 ..< 32] = [0 ..< (4::nat)]"
    by (simp add: take_upt)
  finally show ?thesis .
qed

text \<open>
  C3: when the Pacific local hour is 8 or 9, the handler returns the qualification
  message with a code made of \<open>SIERRA-\<close> and four uppercase alphanumeric characters,
  whatever UUID is drawn; at any other hour it returns the fixed non-qualifying
  string, the same for every world.
\<close>

theorem early_riser_window:
  "(8 \<le> hour w \<and> hour w < 10 \<longrightarrow>
      (\<exists>code. length code = 4 \<and> (\<forall>c\<in>set code. upper_alnum c)
         \<and> handle_early_riser_promo w =
             u ''This user qualifies for the Early Riser promotion! They may use discount code ''
             @ u ''SIERRA-'' @ code @ u '' for 10% off.''))
 \<and> (\<not> (8 \<le> hour w \<and> hour w < 10) \<longrightarrow> handle_early_riser_promo w = not_qualified)"
proof (intro conjI impI)
  assume h: "8 \<le> hour w \<and> hour w < 10"
  let ?code = "ascii_upper (take 4 (uuid_str (uuid w)))"
  have "length ?code = 4"
    by (simp add: ascii_upper_def take4_uuid_str)
  moreover have "\<forall>c\<in>set ?code. upper_alnum c"
    unfolding take4_uuid_str by (rule upper_hex_all)
  moreover have "handle_early_riser_promo w =
             u ''This user qualifies for the Early Riser promotion! They may use discount code ''
             @ u ''SIERRA-'' @ ?code @ u '' for 10% off.''"
    using h by (simp add: handle_early_riser_promo_def Let_def u_def)
  ultimately show "\<exists>code. length code = 4 \<and> (\<forall>c\<in>set code. upper_alnum c)
         \<and> handle_early_riser_promo w =
             u ''This user qualifies for the Early Riser promotion! They may use discount code ''
             @ u ''SIERRA-'' @ code @ u '' for 10% off.''"
    by blast
next
  assume "\<not> (8 \<le> hour w \<and> hour w < 10)"
  then show "handle_early_riser_promo w = not_qualified"
    by (auto simp: handle_early_riser_promo_def)
qed

section \<open>The tag index\<close>

lemma dd_keys_simps:
  "dd_keys [] = []"
  "dd_keys ((k, v) # d) = k # dd_keys d"
  "dd_keys (d @ e) = dd_keys d @ dd_keys e"
  by (simp_all add: dd_keys_def)

lemma map_of_None_keys: "map_of d k = None \<longleftrightarrow> k \<notin> set (dd_keys d)"
  by (simp add: dd_keys_def map_of_eq_None_iff)

lemma map_of_dd_store: "map_of (dd_store d key ps) = (map_of d)(key \<mapsto> ps)"
  by (induction d key ps rule: dd_store.induct) auto

lemma keys_dd_store:
  "dd_keys (dd_store d key ps) = (if key \<in> set (dd_keys d) then dd_keys d else dd_keys d @ [key])"
  by (induction d key ps rule: dd_store.induct) (auto simp: dd_keys_simps)

lemma dd_getitem_present:
  "key \<in> set (dd_keys d) \<Longrightarrow> dd_getitem d key = (lookup d key, d)"
  by (auto simp: dd_getitem_def lookup_def map_of_None_keys split: option.splits)

lemma dd_getitem_missing:
  "key \<notin> set (dd_keys d) \<Longrightarrow> dd_getitem d key = ([], d @ [(key, [])])"
  by (auto simp: dd_getitem_def map_of_None_keys [symmetric] split: option.splits)

lemma keys_dd_append:
  "dd_keys (dd_append d key p) = (if key \<in> set (dd_keys d) then dd_keys d else dd_keys d @ [key])"
  by (cases "key \<in> set (dd_keys d)")
     (simp_all add: dd_append_def dd_getitem_present dd_getitem_missing keys_dd_store dd_keys_simps)

lemma lookup_dd_append:
  "lookup (dd_append d key p) k = (if k = key then lookup d k @ [p] else lookup d k)"
proof (cases "key \<in> set (dd_keys d)")
  case True
  then show ?thesis
    by (simp add: dd_append_def dd_getitem_present lookup_def map_of_dd_store)
next
  case False
  then have "map_of d key = None"
    by (simp add: map_of_None_keys)
  with False show ?thesis
    by (simp add: dd_append_def dd_getitem_missing lookup_def map_of_dd_store map_add_def
             split: option.splits)
qed

lemma keys_index_tags:
  "set (dd_keys (index_tags lower p tags d)) = set (dd_keys d) \<union> lower ` set tags"
  by (induction tags arbitrary: d) (auto simp: keys_dd_append Let_def)

lemma distinct_index_tags:
  "distinct (dd_keys d) \<Longrightarrow> distinct (dd_keys (index_tags lower p tags d))"
  by (induction tags arbitrary: d) (auto simp: keys_dd_append Let_def)

lemma lookup_index_tags:
  "lookup (index_tags lower p tags d) k = lookup d k @ replicate (count_list (map lower tags) k) p"
  by (induction tags arbitrary: d)
     (auto simp: lookup_dd_append Let_def replicate_append_same)

lemma keys_index_products:
  "set (dd_keys (index_products lower ps d)) =
     set (dd_keys d) \<union> (\<Union>p\<in>set ps. lower ` set (Tags p))"
  by (induction ps arbitrary: d) (auto simp: keys_index_tags)

lemma distinct_index_products:
  "distinct (dd_keys d) \<Longrightarrow> distinct (dd_keys (index_products lower ps d))"
  by (induction ps arbitrary: d) (auto simp: distinct_index_tags)

lemma lookup_index_products:
  "lookup (index_products lower ps d) k = lookup d k @ tagged lower ps k"
  by (induction ps arbitrary: d) (auto simp: lookup_index_tags tagged_def)

lemma map_of_keys: "k \<in> set (dd_keys d) \<Longrightarrow> map_of d k = Some (lookup d k)"
  by (auto simp: lookup_def map_of_None_keys split: option.splits)

lemma tagged_member:
  assumes p: "p \<in> set ps" and t: "t \<in> set (Tags p)"
  shows "p \<in> set (tagged lower ps (lower t))"
proof -
  from t have "lower t \<in> set (map lower (Tags p))" by simp
  then have "0 < count_list (map lower (Tags p)) (lower t)"
    using count_list_0_iff [of "map lower (Tags p)" "lower t"]
    by (cases "count_list (map lower (Tags p)) (lower t)") auto
  with p show ?thesis
    unfolding tagged_def by (auto intro!: bexI [of _ p])
qed

text \<open>
  C7: after startup the keys of the tag index are distinct and are exactly the
  lowercased tags of the catalog; for every product and every one of its tags, the list
  under the lowercased tag contains the product; and the list under a key is the
  catalog's products in catalog order, each repeated once per tag of its own that
  lowercases to the key, with nothing removed. This holds for any lowercasing function.
\<close>

theorem tag_index_after_startup:
  "distinct (dd_keys (tag_index (init lower os ps)))
 \<and> set (dd_keys (tag_index (init lower os ps))) = (\<Union>p\<in>set ps. lower ` set (Tags p))
 \<and> (\<forall>p\<in>set ps. \<forall>t\<in>set (Tags p).
       \<exists>l. map_of (tag_index (init lower os ps)) (lower t) = Some l \<and> p \<in> set l)
 \<and> (\<forall>k\<in>set (dd_keys (tag_index (init lower os ps))).
       map_of (tag_index (init lower os ps)) k = Some (tagged lower ps k))"
proof -
  let ?d = "index_products lower ps []"
  have d: "tag_index (init lower os ps) = ?d" by (simp add: init_def)
  have keys: "set (dd_keys ?d) = (\<Union>p\<in>set ps. lower ` set (Tags p))"
    by (simp add: keys_index_products dd_keys_simps)
  have dist: "distinct (dd_keys ?d)"
    by (rule distinct_index_products) (simp add: dd_keys_simps)
  have "lookup [] k = []" for k
    by (simp add: lookup_def)
  then have look: "lookup ?d k = tagged lower ps k" for k
    by (simp add: lookup_index_products)
  have vals: "\<forall>k\<in>set (dd_keys ?d). map_of ?d k = Some (tagged lower ps k)"
    using map_of_keys [of _ ?d] look by simp
  have memb: "\<forall>p\<in>set ps. \<forall>t\<in>set (Tags p). \<exists>l. map_of ?d (lower t) = Some l \<and> p \<in> set l"
  proof (intro ballI)
    fix p t assume p: "p \<in> set ps" and t: "t \<in> set (Tags p)"
    then have "lower t \<in> set (dd_keys ?d)" unfolding keys by blast
    with vals have "map_of ?d (lower t) = Some (tagged lower ps (lower t))" by blast
    with tagged_member [OF p t] show "\<exists>l. map_of ?d (lower t) = Some l \<and> p \<in> set l" by blast
  qed
  show ?thesis unfolding d using dist keys memb vals by blast
qed


section \<open>Product recommendation\<close>

lemma call_gpt_calls:
  "api_calls (snd (call_gpt a prompt temp w)) =
     api_calls w @ [\<lparr>model = model_name a, messages = [\<lparr>role = User, content = prompt\<rparr>],
                     temperature = temp\<rparr>]"
  by (simp add: call_gpt_def create_def print_def split: sum.splits)

text \<open>
  C5: when no token of the tag-selection response, split on commas and trimmed, is a
  key of the tag index, the handler returns the fallback string as it is, and the only
  provider call it has made is the tag-selection call.
\<close>

theorem recommendation_fallback_single_call:
  assumes "call_gpt a (tag_selection_prompt (str_join (u '', '') (sort (dd_keys (tag_index a)))) query) 0 w
             = (tag_response, w1)"
      and "\<forall>t\<in>set (map strip (str_split 44 tag_response)). \<not> dd_contains (tag_index a) t"
  shows "handle_product_recommendation a query w = (fallback, a, w1)
       \<and> api_calls w1 = api_calls w @
           [\<lparr>model = model_name a,
             messages = [\<lparr>role = User, content =
                tag_selection_prompt (str_join (u '', '') (sort (dd_keys (tag_index a)))) query\<rparr>],
             temperature = 0\<rparr>]"
proof -
  from assms(2) have "filter (dd_contains (tag_index a)) (map strip (str_split 44 tag_response)) = []"
    by (simp add: filter_empty_conv)
  with assms(1) have "handle_product_recommendation a query w = (fallback, a, w1)"
    by (simp add: handle_product_recommendation_def Let_def)
  moreover from call_gpt_calls
    [of a "tag_selection_prompt (str_join (u '', '') (sort (dd_keys (tag_index a)))) query" 0 w] assms(1)
  have "api_calls w1 = api_calls w @
           [\<lparr>model = model_name a,
             messages = [\<lparr>role = User, content =
                tag_selection_prompt (str_join (u '', '') (sort (dd_keys (tag_index a)))) query\<rparr>],
             temperature = 0\<rparr>]"
    by simp
  ultimately show ?thesis by simp
qed

section \<open>What a turn leaves unchanged\<close>

lemma gather_valid:
  "\<forall>t\<in>set tags. t \<in> set (dd_keys d) \<Longrightarrow>
   gather d tags acc = (acc @ concat (map (lookup d) tags), d)"
  by (induction tags arbitrary: acc) (simp_all add: dd_getitem_present)

lemma recommendation_agent:
  "fst (snd (handle_product_recommendation a query w)) = a"
proof -
  have "gather (tag_index a) (filter (dd_contains (tag_index a)) xs) [] =
        (concat (map (lookup (tag_index a)) (filter (dd_contains (tag_index a)) xs)), tag_index a)" for xs
    using gather_valid [of "filter (dd_contains (tag_index a)) xs" "tag_index a" "[]"]
    by (simp add: dd_contains_def)
  then show ?thesis
    by (simp add: handle_product_recommendation_def Let_def split: prod.splits)
qed

lemma recommendation_agentD:
  "handle_product_recommendation a query w = (r, a', w') \<Longrightarrow> a' = a"
  using recommendation_agent [of a query w] by simp

lemma run_handlers_agent: "fst (snd (run_handlers a intents user_input w)) = a"
  by (auto simp: run_handlers_def Let_def split: prod.splits sum.splits if_splits
           dest: recommendation_agentD)

lemma run_handlers_agentD:
  "run_handlers a intents user_input w = (res, a2, w2) \<Longrightarrow> a2 = a"
  using run_handlers_agent [of a intents user_input w] by simp

lemma chat_agent:
  "fst (snd (call_gpt_and_update_history a msg w)) =
     a\<lparr>history := history (fst (snd (call_gpt_and_update_history a msg w)))\<rparr>"
  by (simp add: call_gpt_and_update_history_def create_def Let_def split: sum.splits)

text \<open>
  C9: a turn through \<open>handle\<close> leaves the order list, the product list and the tag index
  as they were, whether it returns or raises; of the agent's fields only the history
  may differ afterwards. The index is threaded through every \<open>self.tag_index[tag]\<close> of
  the recommendation handler, where a lookup of a missing key would insert it: none
  does, since only tags that passed the membership test are looked up.
\<close>

theorem handle_changes_only_history:
  "orders (fst (snd (handle a user_input w))) = orders a
 \<and> products (fst (snd (handle a user_input w))) = products a
 \<and> tag_index (fst (snd (handle a user_input w))) = tag_index a
 \<and> fst (snd (handle a user_input w)) = a\<lparr>history := history (fst (snd (handle a user_input w)))\<rparr>
 \<and> tag_index (fst (snd (handle_product_recommendation a user_input w))) = tag_index a"
proof -
  have "fst (snd (handle a user_input w)) = a\<lparr>history := history (fst (snd (handle a user_input w)))\<rparr>"
  proof (cases "call_gpt a (intent_prompt user_input) 0 w")
    case (Pair intent_response w1)
    show ?thesis
    proof (cases "run_handlers a (parse_intents intent_response) user_input w1")
      case (fields res a2 w2)
      then have a2: "a2 = a" by (rule run_handlers_agentD)
      show ?thesis
      proof (cases res)
        case (Inl e)
        with Pair fields a2 show ?thesis by (simp add: handle_def)
      next
        case (Inr responses)
        with Pair fields a2
          chat_agent [of a user_input w2]
          chat_agent [of a "compiled_prompt user_input (str_join (u ''\<newline>'') responses)" w2]
        show ?thesis
          by (auto simp: handle_def Let_def split: prod.splits)
      qed
    qed
  qed
  moreover from this have "f (fst (snd (handle a user_input w))) =
      f (a\<lparr>history := history (fst (snd (handle a user_input w)))\<rparr>)" for f :: "agent \<Rightarrow> 'b"
    by (rule arg_cong)
  from this [of orders] this [of products] this [of tag_index]
  have "orders (fst (snd (handle a user_input w))) = orders a"
    and "products (fst (snd (handle a user_input w))) = products a"
    and "tag_index (fst (snd (handle a user_input w))) = tag_index a"
    by simp_all
  ultimately show ?thesis by (simp add: recommendation_agent)
qed

section \<open>Routing\<close>

lemma chat_calls:
  "api_calls (snd (snd (call_gpt_and_update_history a msg w))) =
     api_calls w @ [\<lparr>model = model_name a,
                     messages = [\<lparr>role = System, content = system_prompt a\<rparr>] @ history a
                                @ [\<lparr>role = User, content = msg\<rparr>],
                     temperature = 0.7\<rparr>]"
  by (simp add: call_gpt_and_update_history_def create_def print_def Let_def split: sum.splits)

lemma run_handlers_set:
  assumes "set xs = set ys"
  shows "run_handlers a xs user_input w = run_handlers a ys user_input w"
  unfolding run_handlers_def assms by (rule refl)

lemma run_handlers_shape:
  assumes "run_handlers a intents user_input w1 = (Inr responses, a2, w2)"
  shows "\<exists>ro rr rp wo.
            (u ''order'' \<in> set intents \<longrightarrow> handle_order_info a user_input w1 = (Inr ro, wo))
          \<and> (u ''order'' \<notin> set intents \<longrightarrow> wo = w1)
          \<and> (u ''recommendation'' \<in> set intents \<longrightarrow>
                 handle_product_recommendation a user_input wo = (rr, a, w2))
          \<and> (u ''recommendation'' \<notin> set intents \<longrightarrow> w2 = wo)
          \<and> (u ''early_riser'' \<in> set intents \<longrightarrow> rp = handle_early_riser_promo w2)
          \<and> responses =
                (if u ''order'' \<in> set intents then [ro] else [])
              @ (if u ''recommendation'' \<in> set intents then [rr] else [])
              @ (if u ''early_riser'' \<in> set intents then [rp] else [])"
proof (cases "u ''order'' \<in> set intents")
  case True
  with assms obtain ro wo where o: "handle_order_info a user_input w1 = (Inr ro, wo)"
    by (auto simp: run_handlers_def split: prod.splits sum.splits)
  show ?thesis
  proof (cases "u ''recommendation'' \<in> set intents")
    case rec: True
    obtain rr a' wr where r: "handle_product_recommendation a user_input wo = (rr, a', wr)"
      by (cases "handle_product_recommendation a user_input wo")
    then have "a' = a" by (rule recommendation_agentD)
    with True rec o r assms show ?thesis
      by (auto simp: run_handlers_def Let_def)
  next
    case False
    with True o assms show ?thesis
      by (auto simp: run_handlers_def Let_def)
  qed
next
  case False
  show ?thesis
  proof (cases "u ''recommendation'' \<in> set intents")
    case rec: True
    obtain rr a' wr where r: "handle_product_recommendation a user_input w1 = (rr, a', wr)"
      by (cases "handle_product_recommendation a user_input w1")
    then have "a' = a" by (rule recommendation_agentD)
    with False rec r assms show ?thesis
      by (auto simp: run_handlers_def Let_def)
  next
    case nrec: False
    with False assms show ?thesis
      by (auto simp: run_handlers_def Let_def)
  qed
qed


text \<open>
  C1: whenever the handlers have run and their fragment list is empty, or \<open>general\<close> is
  among the parsed intents, the turn is the persona chat call on the raw user input:
  the request that call sends ends in the user turn holding the input as typed, and
  no fragment is part of it, even if a handler produced one.
\<close>

theorem general_or_empty_sends_raw_input:
  assumes "call_gpt a (intent_prompt user_input) 0 w = (intent_response, w1)"
      and "run_handlers a (parse_intents intent_response) user_input w1 = (Inr responses, a2, w2)"
      and "responses = [] \<or> u ''general'' \<in> set (parse_intents intent_response)"
  shows "handle a user_input w =
           (case call_gpt_and_update_history a user_input w2 of
              (reply, a3, w3) \<Rightarrow> (Inr reply, a3, w3))
       \<and> api_calls (snd (snd (handle a user_input w))) =
           api_calls w2 @ [\<lparr>model = model_name a,
                            messages = [\<lparr>role = System, content = system_prompt a\<rparr>] @ history a
                                       @ [\<lparr>role = User, content = user_input\<rparr>],
                            temperature = 0.7\<rparr>]"
proof -
  from assms(2) have a2: "a2 = a" by (rule run_handlers_agentD)
  from assms a2 have run: "handle a user_input w =
           (case call_gpt_and_update_history a user_input w2 of
              (reply, a3, w3) \<Rightarrow> (Inr reply, a3, w3))"
    by (auto simp: handle_def Let_def)
  moreover have "api_calls (snd (snd (handle a user_input w))) =
      api_calls (snd (snd (call_gpt_and_update_history a user_input w2)))"
    unfolding run by (simp split: prod.splits)
  ultimately show ?thesis
    by (simp only: chat_calls)
qed

text \<open>
  C6: when the handlers have produced at least one fragment and \<open>general\<close> is not among
  the parsed intents, the message sent to the persona chat call is exactly
  \<open>User question: {input}. Use the following information to best answer the user's
  question: {fragments}\<close>, the fragments joined by newlines. The fragments are the
  output of the order handler, then of the recommendation handler, then of the promo
  handler, each present when its label is among the intents; any list with the same
  set of intents gives the same fragments, so the order of the classifier's labels
  does not matter.
\<close>

theorem fragments_compiled_in_fixed_order:
  assumes "call_gpt a (intent_prompt user_input) 0 w = (intent_response, w1)"
      and "intents = parse_intents intent_response"
      and "run_handlers a intents user_input w1 = (Inr responses, a2, w2)"
      and "responses \<noteq> []"
      and "u ''general'' \<notin> set intents"
  shows "api_calls (snd (snd (handle a user_input w))) =
           api_calls w2 @ [\<lparr>model = model_name a,
              messages = [\<lparr>role = System, content = system_prompt a\<rparr>] @ history a
                @ [\<lparr>role = User, content =
                      u ''User question: '' @ user_input
                    @ u ''. Use the following information to best answer the user's question: ''
                    @ str_join (u ''\<newline>'') responses\<rparr>],
              temperature = 0.7\<rparr>]
       \<and> (\<exists>ro rr rp wo.
              (u ''order'' \<in> set intents \<longrightarrow> handle_order_info a user_input w1 = (Inr ro, wo))
            \<and> (u ''order'' \<notin> set intents \<longrightarrow> wo = w1)
            \<and> (u ''recommendation'' \<in> set intents \<longrightarrow>
                   handle_product_recommendation a user_input wo = (rr, a, w2))
            \<and> (u ''recommendation'' \<notin> set intents \<longrightarrow> w2 = wo)
            \<and> (u ''early_riser'' \<in> set intents \<longrightarrow> rp = handle_early_riser_promo w2)
            \<and> responses =
                  (if u ''order'' \<in> set intents then [ro] else [])
                @ (if u ''recommendation'' \<in> set intents then [rr] else [])
                @ (if u ''early_riser'' \<in> set intents then [rp] else []))
       \<and> (\<forall>intents'. set intents' = set intents \<longrightarrow>
            run_handlers a intents' user_input w1 = (Inr responses, a2, w2))"
proof -
  from assms(3) have a2: "a2 = a" by (rule run_handlers_agentD)
  from assms a2 have run: "handle a user_input w =
      (case call_gpt_and_update_history a
              (compiled_prompt user_input (str_join (u ''\<newline>'') responses)) w2 of
         (reply, a3, w3) \<Rightarrow> (Inr reply, a3, w3))"
    by (auto simp: handle_def Let_def)
  have "api_calls (snd (snd (handle a user_input w))) =
      api_calls (snd (snd (call_gpt_and_update_history a
              (compiled_prompt user_input (str_join (u ''\<newline>'') responses)) w2)))"
    unfolding run by (simp split: prod.splits)
  then have first: "api_calls (snd (snd (handle a user_input w))) =
           api_calls w2 @ [\<lparr>model = model_name a,
              messages = [\<lparr>role = System, content = system_prompt a\<rparr>] @ history a
                @ [\<lparr>role = User, content =
                      u ''User question: '' @ user_input
                    @ u ''. Use the following information to best answer the user's question: ''
                    @ str_join (u ''\<newline>'') responses\<rparr>],
              temperature = 0.7\<rparr>]"
    by (simp only: chat_calls) (simp add: compiled_prompt_def u_def)
  have third: "\<forall>intents'. set intents' = set intents \<longrightarrow>
            run_handlers a intents' user_input w1 = (Inr responses, a2, w2)"
  proof (intro allI impI)
    fix intents' assume "set intents' = set intents"
    then have "run_handlers a intents' user_input w1 = run_handlers a intents user_input w1"
      by (rule run_handlers_set)
    with assms(3) show "run_handlers a intents' user_input w1 = (Inr responses, a2, w2)"
      by simp
  qed
  from first run_handlers_shape [OF assms(3)] third show ?thesis by blast
qed

lemma labels_lower: "l \<in> set intent_labels \<Longrightarrow> ascii_lower l = l"
  by (auto simp: intent_labels_def ascii_lower_def u_def)

lemma case_variant_not_label: "case_variant t \<Longrightarrow> t \<notin> set intent_labels"
  using labels_lower [of t] by (auto simp: case_variant_def)

lemma label_not_variant: "l \<in> set intent_labels \<Longrightarrow> \<not> case_variant l"
  using case_variant_not_label [of l] by blast

lemma label_kept:
  "l \<in> set intent_labels \<Longrightarrow>
   (l \<in> set (filter (\<lambda>t. \<not> case_variant t) xs)) = (l \<in> set xs)"
  using label_not_variant [of l] by auto

lemma labels_kept:
  "(u ''order'' \<in> set xs) = (u ''order'' \<in> set (filter (\<lambda>t. \<not> case_variant t) xs))"
  "(u ''recommendation'' \<in> set xs) = (u ''recommendation'' \<in> set (filter (\<lambda>t. \<not> case_variant t) xs))"
  "(u ''early_riser'' \<in> set xs) = (u ''early_riser'' \<in> set (filter (\<lambda>t. \<not> case_variant t) xs))"
  "(u ''general'' \<in> set xs) = (u ''general'' \<in> set (filter (\<lambda>t. \<not> case_variant t) xs))"
  using label_kept [of "u ''order''" xs] label_kept [of "u ''recommendation''" xs]
    label_kept [of "u ''early_riser''" xs] label_kept [of "u ''general''" xs]
  by (simp_all add: intent_labels_def)

lemma run_handlers_labels:
  assumes "(u ''order'' \<in> set xs) = (u ''order'' \<in> set ys)"
      and "(u ''recommendation'' \<in> set xs) = (u ''recommendation'' \<in> set ys)"
      and "(u ''early_riser'' \<in> set xs) = (u ''early_riser'' \<in> set ys)"
  shows "run_handlers a xs user_input w = run_handlers a ys user_input w"
  unfolding run_handlers_def assms by (rule refl)

lemma run_handlers_kept:
  "run_handlers a xs user_input w =
   run_handlers a (filter (\<lambda>t. \<not> case_variant t) xs) user_input w"
  by (rule run_handlers_labels) (rule labels_kept)+

text \<open>
  C10: intent tokens are compared as they are. A token that differs from a label only
  in case is none of the four labels. Dropping such tokens from any token list changes
  neither what the handlers do nor whether \<open>general\<close> is among the intents, so a turn is
  the turn of the remaining tokens: a case variant fires no handler and does not
  trigger the general rule, whatever else the response holds. In particular, when
  every parsed token is such a variant, no handler runs (the fragment list is empty
  and neither the agent nor the world has changed), \<open>general\<close> is not among the intents,
  and the turn is the persona chat call on the raw input, reached by the
  empty-fragment rule.
\<close>

theorem case_variants_are_ignored:
  assumes "call_gpt a (intent_prompt user_input) 0 w = (intent_response, w1)"
      and "intents = parse_intents intent_response"
      and "kept = filter (\<lambda>t. \<not> case_variant t) intents"
  shows "(\<forall>t. case_variant t \<longrightarrow>
            t \<noteq> u ''order'' \<and> t \<noteq> u ''recommendation'' \<and> t \<noteq> u ''early_riser''
          \<and> t \<noteq> u ''general'')
       \<and> (\<forall>xs w'. run_handlers a xs user_input w' =
            run_handlers a (filter (\<lambda>t. \<not> case_variant t) xs) user_input w')
       \<and> (\<forall>xs. (u ''general'' \<in> set xs) =
            (u ''general'' \<in> set (filter (\<lambda>t. \<not> case_variant t) xs)))
       \<and> handle a user_input w =
           (case run_handlers a kept user_input w1 of
              (Inl e, a2, w2) \<Rightarrow> (Inl e, a2, w2)
            | (Inr responses, a2, w2) \<Rightarrow>
                (if responses = [] \<or> u ''general'' \<in> set kept then
                   (case call_gpt_and_update_history a2 user_input w2 of
                      (reply, a3, w3) \<Rightarrow> (Inr reply, a3, w3))
                 else
                   (case call_gpt_and_update_history a2
                           (compiled_prompt user_input (str_join (u ''\<newline>'') responses)) w2 of
                      (reply, a3, w3) \<Rightarrow> (Inr reply, a3, w3))))
       \<and> ((\<forall>t\<in>set intents. case_variant t) \<longrightarrow>
              run_handlers a intents user_input w1 = (Inr [], a, w1)
            \<and> u ''general'' \<notin> set intents
            \<and> handle a user_input w =
                (case call_gpt_and_update_history a user_input w1 of
                   (reply, a3, w3) \<Rightarrow> (Inr reply, a3, w3)))"
proof -
  have tokens: "\<forall>t. case_variant t \<longrightarrow>
            t \<noteq> u ''order'' \<and> t \<noteq> u ''recommendation'' \<and> t \<noteq> u ''early_riser''
          \<and> t \<noteq> u ''general''"
    using case_variant_not_label by (auto simp: intent_labels_def)
  have run: "\<forall>xs w'. run_handlers a xs user_input w' =
            run_handlers a (filter (\<lambda>t. \<not> case_variant t) xs) user_input w'"
    by (intro allI) (rule run_handlers_kept)
  have gen: "\<forall>xs. (u ''general'' \<in> set xs) =
            (u ''general'' \<in> set (filter (\<lambda>t. \<not> case_variant t) xs))"
    by (intro allI) (rule labels_kept(4))
  have unfolded: "handle a user_input w =
           (case run_handlers a intents user_input w1 of
              (Inl e, a2, w2) \<Rightarrow> (Inl e, a2, w2)
            | (Inr responses, a2, w2) \<Rightarrow>
                (if responses = [] \<or> u ''general'' \<in> set intents then
                   (case call_gpt_and_update_history a2 user_input w2 of
                      (reply, a3, w3) \<Rightarrow> (Inr reply, a3, w3))
                 else
                   (case call_gpt_and_update_history a2
                           (compiled_prompt user_input (str_join (u ''\<newline>'') responses)) w2 of
                      (reply, a3, w3) \<Rightarrow> (Inr reply, a3, w3))))"
    unfolding handle_def assms(1) assms(2) Let_def prod.case by (rule refl)
  have turn: "handle a user_input w =
           (case run_handlers a kept user_input w1 of
              (Inl e, a2, w2) \<Rightarrow> (Inl e, a2, w2)
            | (Inr responses, a2, w2) \<Rightarrow>
                (if responses = [] \<or> u ''general'' \<in> set kept then
                   (case call_gpt_and_update_history a2 user_input w2 of
                      (reply, a3, w3) \<Rightarrow> (Inr reply, a3, w3))
                 else
                   (case call_gpt_and_update_history a2
                           (compiled_prompt user_input (str_join (u ''\<newline>'') responses)) w2 of
                      (reply, a3, w3) \<Rightarrow> (Inr reply, a3, w3))))"
    unfolding unfolded assms(3)
      run_handlers_kept [of a intents user_input w1] labels_kept(4) [of intents]
    by (rule refl)
  have all: "(\<forall>t\<in>set intents. case_variant t) \<longrightarrow>
              run_handlers a intents user_input w1 = (Inr [], a, w1)
            \<and> u ''general'' \<notin> set intents
            \<and> handle a user_input w =
                (case call_gpt_and_update_history a user_input w1 of
                   (reply, a3, w3) \<Rightarrow> (Inr reply, a3, w3))"
  proof
    assume "\<forall>t\<in>set intents. case_variant t"
    then have "\<forall>l\<in>set intent_labels. l \<notin> set intents"
      using case_variant_not_label by blast
    then have labels: "u ''order'' \<notin> set intents" "u ''recommendation'' \<notin> set intents"
      "u ''early_riser'' \<notin> set intents" "u ''general'' \<notin> set intents"
      by (simp_all add: intent_labels_def)
    then have "run_handlers a intents user_input w1 = (Inr [], a, w1)"
      by (simp add: run_handlers_def)
    with labels(4) show "run_handlers a intents user_input w1 = (Inr [], a, w1)
            \<and> u ''general'' \<notin> set intents
            \<and> handle a user_input w =
                (case call_gpt_and_update_history a user_input w1 of
                   (reply, a3, w3) \<Rightarrow> (Inr reply, a3, w3))"
      by (simp add: unfolded)
  qed
  from tokens run gen turn all show ?thesis by (intro conjI)
qed

section \<open>Worked examples\<close>

text \<open>
  The statements above, run on a small store and catalog: each example evaluates the
  model at a concrete agent and world and applies the corresponding statement there.
\<close>

subsection \<open>Evaluating the example data\<close>

lemma example_agent_fields:
  "history example_agent = []"
  "orders example_agent = example_orders"
  "products example_agent = example_products"
  "tag_index example_agent = index_products ascii_lower example_products []"
  by (simp_all add: example_agent_def init_def)

lemma example_order_fields:
  "Email john_order = u ''john.doe@example.com''" "OrderNumber john_order = u ''#W001''"
  "Status john_order = u ''delivered''" "TrackingNumber john_order = u ''TRK123456789''"
  "Email jane_order = u ''jane.smith@example.com''" "OrderNumber jane_order = u ''#W002''"
  "Status jane_order = u ''in-transit''" "TrackingNumber jane_order = u ''TRK987654321''"
  by (simp_all add: john_order_def jane_order_def)

lemma example_world_fields:
  "api (example_world script lines h) = provider script"
  "api_calls (example_world script lines h) = []"
  "stdin (example_world script lines h) = lines"
  "stdout (example_world script lines h) = []"
  "hour (example_world script lines h) = h"
  "uuid (example_world script lines h) = 0x3f2a9c4e1b7d4e0fa1b2c3d4e5f60718"
  by (simp_all add: example_world_def)

lemma example_lower:
  "ascii_lower (u ''Backpack'') = u ''backpack''"
  "ascii_lower (u ''Hiking'') = u ''hiking''"
  "ascii_lower (u ''hiking'') = u ''hiking''"
  "ascii_lower (u ''Poles'') = u ''poles''"
  "ascii_lower (u ''HIKING'') = u ''hiking''"
  "ascii_lower (u ''Order'') = u ''order''"
  "ascii_lower (u ''GENERAL'') = u ''general''"
  by (simp_all add: ascii_lower_def u_def)

lemma example_tags:
  "Tags backpack = [u ''Backpack'', u ''Hiking'']"
  "Tags poles = [u ''hiking'', u ''Poles'', u ''HIKING'']"
  by (simp_all add: backpack_def poles_def)

lemma example_tag_index:
  "tag_index example_agent =
     [(u ''backpack'', [backpack]),
      (u ''hiking'', [backpack, poles, poles]),
      (u ''poles'', [poles])]"
  by (simp add: example_agent_fields example_products_def example_tags example_lower
        dd_append_def dd_getitem_def u_eq_iff Let_def)

lemma example_sorted_tags:
  "sort [u ''backpack'', u ''hiking'', u ''poles''] = [u ''backpack'', u ''hiking'', u ''poles'']"
  by (simp add: u_def)

lemma example_strip:
  "strip (u ''order, general'') = u ''order, general''"
  "strip (u '' order, general\<newline>'') = u ''order, general''"
  "strip (u '' It was delivered! '') = u ''It was delivered!''"
  "strip (u '' Howdy! '') = u ''Howdy!''"
  "strip (u ''early_riser, order'') = u ''early_riser, order''"
  "strip (u ''Order, GENERAL'') = u ''Order, GENERAL''"
  "strip (u ''recommendation'') = u ''recommendation''"
  "strip (u ''tents, Hiking'') = u ''tents, Hiking''"
  "strip (u ''hiking, poles'') = u ''hiking, poles''"
  "strip (u ''Recommended Purchase for Customer: Summit Trekking Poles'') =
     u ''Recommended Purchase for Customer: Summit Trekking Poles''"
  by (simp_all add: strip_def is_space_def u_def)

lemma example_parse:
  "parse_intents (u ''order, general'') = [u ''order'', u ''general'']"
  "parse_intents (u ''early_riser, order'') = [u ''early_riser'', u ''order'']"
  "parse_intents (u ''Order, GENERAL'') = [u ''Order'', u ''GENERAL'']"
  "parse_intents (u ''recommendation'') = [u ''recommendation'']"
  by (simp_all add: parse_intents_def strip_def is_space_def u_def)

lemma example_tag_tokens:
  "map strip (str_split 44 (u ''tents, Hiking'')) = [u ''tents'', u ''Hiking'']"
  "map strip (str_split 44 (u ''hiking, poles'')) = [u ''hiking'', u ''poles'']"
  by (simp_all add: strip_def is_space_def u_def)

lemma example_code:
  "ascii_upper (take 4 (uuid_str 0x3f2a9c4e1b7d4e0fa1b2c3d4e5f60718)) = u ''3F2A''"
  by (simp add: take4_uuid_str ascii_upper_def hex_digit_def u_def upt_rec)

subsection \<open>The gateway\<close>

text \<open>
  An unreachable provider, a response without choices and a response without text all
  give the apology; a reply comes back stripped.
\<close>

theorem call_gpt_converts_failure_witness:
  "fst (call_gpt example_agent (u ''hello'') 0 (example_world [] [] 9)) = gateway_apology
 \<and> stdout (snd (call_gpt example_agent (u ''hello'') 0 (example_world [] [] 9))) =
       [u ''[GPT error] Connection error.\<newline>'']
 \<and> fst (call_gpt example_agent (u ''hello'') 0 (example_world [ApiReturn []] [] 9)) = gateway_apology
 \<and> fst (call_gpt example_agent (u ''hello'') 0 (example_world [ApiReturn [None]] [] 9)) = gateway_apology
 \<and> fst (call_gpt example_agent (u ''hello'') 0
        (example_world [ApiReturn [Some (u '' order, general\<newline>'')]] [] 9)) = u ''order, general''"
  using call_gpt_converts_failure [where w = "example_world [] [] 9" and a = example_agent
          and prompt = "u ''hello''" and temp = 0]
        call_gpt_converts_failure [where w = "example_world [ApiReturn []] [] 9" and a = example_agent
          and prompt = "u ''hello''" and temp = 0]
        call_gpt_converts_failure [where w = "example_world [ApiReturn [None]] [] 9" and a = example_agent
          and prompt = "u ''hello''" and temp = 0]
        call_gpt_converts_failure [where w = "example_world [ApiReturn [Some (u '' order, general\<newline>'')]] [] 9"
          and a = example_agent and prompt = "u ''hello''" and temp = 0]
  by (simp add: example_world_fields provider_def example_strip u_append)

text \<open>A successful chat call records both turns; the three failing ones record nothing.\<close>

theorem chat_history_transactional_witness:
  "history (fst (snd (call_gpt_and_update_history example_agent (u ''hello'')
       (example_world [ApiReturn [Some (u '' Howdy! '')]] [] 9)))) =
     [\<lparr>role = User, content = u ''hello''\<rparr>, \<lparr>role = Assistant, content = u ''Howdy!''\<rparr>]
 \<and> fst (call_gpt_and_update_history example_agent (u ''hello'') (example_world [] [] 9)) = chat_apology
 \<and> history (fst (snd (call_gpt_and_update_history example_agent (u ''hello'')
       (example_world [] [] 9)))) = []
 \<and> history (fst (snd (call_gpt_and_update_history example_agent (u ''hello'')
       (example_world [ApiReturn []] [] 9)))) = []
 \<and> history (fst (snd (call_gpt_and_update_history example_agent (u ''hello'')
       (example_world [ApiReturn [None]] [] 9)))) = []"
  using chat_history_transactional [where w = "example_world [ApiReturn [Some (u '' Howdy! '')]] [] 9"
          and a = example_agent and msg = "u ''hello''"]
        chat_history_transactional [where w = "example_world [] [] 9"
          and a = example_agent and msg = "u ''hello''"]
        chat_history_transactional [where w = "example_world [ApiReturn []] [] 9"
          and a = example_agent and msg = "u ''hello''"]
        chat_history_transactional [where w = "example_world [ApiReturn [None]] [] 9"
          and a = example_agent and msg = "u ''hello''"]
  by (simp add: example_world_fields provider_def example_strip example_agent_fields)

subsection \<open>The handlers\<close>

text \<open>
  Jane's order is found under her email as stored, and not under the same email with
  capital letters.
\<close>

theorem order_lookup_exact_match_witness:
  "fst (handle_order_info example_agent question
          (example_world [] [u ''Jane.Smith@example.com'', u ''#W002''] 9)) = Inr order_not_found
 \<and> fst (handle_order_info example_agent question
          (example_world [] [u ''jane.smith@example.com'', u ''#W002''] 9)) =
       Inr (u ''Order #W002 is in-transit. Tracking link: ''
            @ u ''https://tools.usps.com/go/TrackConfirmAction?tLabels=TRK987654321'')"
proof -
  have miss: "fst (handle_order_info example_agent question
          (example_world [] [u ''Jane.Smith@example.com'', u ''#W002''] 9)) = Inr order_not_found"
    using order_lookup_exact_match [where w = "example_world [] [u ''Jane.Smith@example.com'', u ''#W002''] 9"
        and email = "u ''Jane.Smith@example.com''" and order_number = "u ''#W002''" and rest = "[]"
        and a = example_agent and query = question]
    by (simp add: example_world_fields example_agent_fields example_orders_def example_order_fields
          u_eq_iff u_append)
  have hit: "fst (handle_order_info example_agent question
          (example_world [] [u ''jane.smith@example.com'', u ''#W002''] 9)) =
       Inr (u ''Order #W002 is in-transit. Tracking link: ''
            @ u ''https://tools.usps.com/go/TrackConfirmAction?tLabels=TRK987654321'')"
    using order_lookup_exact_match [where w = "example_world [] [u ''jane.smith@example.com'', u ''#W002''] 9"
        and email = "u ''jane.smith@example.com''" and order_number = "u ''#W002''" and rest = "[]"
        and a = example_agent and query = question,
        THEN conjunct2, rule_format, of "[john_order]" jane_order "[]"]
    by (simp add: example_world_fields example_agent_fields example_orders_def example_order_fields
          u_eq_iff u_append)
  from miss hit show ?thesis by simp
qed

text \<open>At nine the code is \<open>SIERRA-3F2A\<close>, from the UUID of the example; at ten there is none.\<close>

theorem early_riser_window_witness:
  "handle_early_riser_promo (example_world [] [] 9) =
     u ''This user qualifies for the Early Riser promotion! They may use discount code ''
     @ u ''SIERRA-3F2A for 10% off.''
 \<and> (\<exists>code. length code = 4 \<and> (\<forall>c\<in>set code. upper_alnum c)
       \<and> handle_early_riser_promo (example_world [] [] 9) =
             u ''This user qualifies for the Early Riser promotion! They may use discount code ''
             @ u ''SIERRA-'' @ code @ u '' for 10% off.'')
 \<and> handle_early_riser_promo (example_world [] [] 10) = not_qualified"
  using early_riser_window [of "example_world [] [] 9"] early_riser_window [of "example_world [] [] 10"]
  by (simp add: example_world_fields handle_early_riser_promo_def example_code u_append)

text \<open>
  The index of the example catalog: \<open>Hiking\<close>, \<open>hiking\<close> and \<open>HIKING\<close> share one key, under
  which the poles, tagged twice, stand twice.
\<close>

theorem tag_index_after_startup_witness:
  "dd_keys (tag_index example_agent) = [u ''backpack'', u ''hiking'', u ''poles'']
 \<and> set (dd_keys (tag_index example_agent)) =
       (\<Union>p\<in>set example_products. ascii_lower ` set (Tags p))
 \<and> (\<exists>l. map_of (tag_index example_agent) (ascii_lower (u ''HIKING'')) = Some l \<and> poles \<in> set l)
 \<and> map_of (tag_index example_agent) (u ''hiking'') = Some [backpack, poles, poles]
 \<and> tagged ascii_lower example_products (u ''hiking'') = [backpack, poles, poles]"
proof -
  note inst = tag_index_after_startup [of ascii_lower example_orders example_products,
      folded example_agent_def]
  have keys: "dd_keys (tag_index example_agent) = [u ''backpack'', u ''hiking'', u ''poles'']"
    by (simp add: example_tag_index dd_keys_def)
  have "u ''hiking'' \<in> set (dd_keys (tag_index example_agent))"
    by (simp add: keys)
  with inst have "map_of (tag_index example_agent) (u ''hiking'') =
      Some (tagged ascii_lower example_products (u ''hiking''))"
    by blast
  moreover have "map_of (tag_index example_agent) (u ''hiking'') = Some [backpack, poles, poles]"
    by (simp add: example_tag_index u_eq_iff)
  moreover have "poles \<in> set example_products" "u ''HIKING'' \<in> set (Tags poles)"
    by (simp_all add: example_products_def example_tags)
  with inst have "\<exists>l. map_of (tag_index example_agent) (ascii_lower (u ''HIKING'')) = Some l
      \<and> poles \<in> set l"
    by blast
  ultimately show ?thesis using inst keys by simp
qed

text \<open>
  The model answers \<open>tents, Hiking\<close>: neither token is a key (the key is \<open>hiking\<close>), so the
  handler falls back after its one call.
\<close>

theorem recommendation_fallback_single_call_witness:
  "fst (call_gpt example_agent
          (tag_selection_prompt (str_join (u '', '') (sort (dd_keys (tag_index example_agent))))
             (u ''Any tents?'')) 0 tents_world) = u ''tents, Hiking''
 \<and> map strip (str_split 44 (u ''tents, Hiking'')) = [u ''tents'', u ''Hiking'']
 \<and> \<not> dd_contains (tag_index example_agent) (u ''tents'')
 \<and> \<not> dd_contains (tag_index example_agent) (u ''Hiking'')
 \<and> fst (handle_product_recommendation example_agent (u ''Any tents?'') tents_world) = fallback
 \<and> length (api_calls (snd (snd (handle_product_recommendation example_agent (u ''Any tents?'')
          tents_world)))) = 1"
proof -
  let ?p = "tag_selection_prompt (str_join (u '', '') (sort (dd_keys (tag_index example_agent))))
             (u ''Any tents?'')"
  have reply: "fst (call_gpt example_agent ?p 0 tents_world) = u ''tents, Hiking''"
    by (simp add: call_gpt_def create_def completion_text_def tents_world_def example_world_fields
          provider_def example_strip)
  then have call: "call_gpt example_agent ?p 0 tents_world =
      (u ''tents, Hiking'', snd (call_gpt example_agent ?p 0 tents_world))"
    by (simp add: prod_eq_iff)
  have absent: "\<not> dd_contains (tag_index example_agent) (u ''tents'')"
    "\<not> dd_contains (tag_index example_agent) (u ''Hiking'')"
    by (simp_all add: dd_contains_def dd_keys_def example_tag_index u_eq_iff)
  then have none: "\<forall>t\<in>set (map strip (str_split 44 (u ''tents, Hiking''))).
        \<not> dd_contains (tag_index example_agent) t"
    unfolding example_tag_tokens by simp
  note run = recommendation_fallback_single_call [OF call none]
  from run have out: "fst (handle_product_recommendation example_agent (u ''Any tents?'') tents_world)
      = fallback"
    by simp
  from run have "api_calls (snd (snd (handle_product_recommendation example_agent (u ''Any tents?'')
      tents_world))) =
      api_calls tents_world @ [\<lparr>model = model_name example_agent,
             messages = [\<lparr>role = User, content = ?p\<rparr>], temperature = 0\<rparr>]"
    by simp
  then have calls: "length (api_calls (snd (snd (handle_product_recommendation example_agent
      (u ''Any tents?'') tents_world)))) = 1"
    by (simp add: tents_world_def example_world_fields)
  show ?thesis
    by (intro conjI reply example_tag_tokens(1) absent out calls)
qed

subsection \<open>Turns\<close>

text \<open>
  A recommendation that looks up two valid tags and asks the model twice, alone and as
  part of a turn: the index afterwards is the index of startup.
\<close>

theorem handle_changes_only_history_witness:
  "fst (handle_product_recommendation example_agent (u ''Any poles?'') poles_world) =
     u ''Recommended Purchase for Customer: Summit Trekking Poles''
 \<and> tag_index (fst (snd (handle_product_recommendation example_agent (u ''Any poles?'') poles_world))) =
     tag_index example_agent
 \<and> orders (fst (snd (handle example_agent (u ''Any poles?'') recommendation_world))) = example_orders
 \<and> products (fst (snd (handle example_agent (u ''Any poles?'') recommendation_world))) =
     example_products
 \<and> tag_index (fst (snd (handle example_agent (u ''Any poles?'') recommendation_world))) =
     [(u ''backpack'', [backpack]), (u ''hiking'', [backpack, poles, poles]), (u ''poles'', [poles])]"
proof -
  have rec: "fst (handle_product_recommendation example_agent (u ''Any poles?'') poles_world) =
      u ''Recommended Purchase for Customer: Summit Trekking Poles''"
    by (simp add: handle_product_recommendation_def call_gpt_def create_def completion_text_def
          poles_world_def example_world_fields provider_def example_strip example_tag_tokens
          example_tag_index dd_contains_def dd_keys_def dd_getitem_def example_sorted_tags
          u_eq_iff Let_def)
  note alone = handle_changes_only_history [of example_agent "u ''Any poles?''" poles_world]
  note turn = handle_changes_only_history [of example_agent "u ''Any poles?''" recommendation_world]
  from rec alone turn show ?thesis
    by (simp add: example_agent_fields(2,3) example_tag_index)
qed

text \<open>
  The classifier answers \<open>order, general\<close>: the order handler runs and finds the order,
  and the chat call still gets the question as typed.
\<close>

theorem general_or_empty_sends_raw_input_witness:
  "fst (call_gpt example_agent (intent_prompt question) 0 order_general_world) = u ''order, general''
 \<and> u ''general'' \<in> set (parse_intents (u ''order, general''))
 \<and> fst (run_handlers example_agent (parse_intents (u ''order, general'')) question
      (snd (call_gpt example_agent (intent_prompt question) 0 order_general_world))) =
     Inr [u ''Order #W001 is delivered. Tracking link: ''
          @ u ''https://tools.usps.com/go/TrackConfirmAction?tLabels=TRK123456789'']
 \<and> fst (handle example_agent question order_general_world) = Inr (u ''It was delivered!'')
 \<and> messages (last (api_calls (snd (snd (handle example_agent question order_general_world))))) =
     [\<lparr>role = System, content = system_prompt example_agent\<rparr>,
      \<lparr>role = User, content = u ''Where is my order?''\<rparr>]"
  using general_or_empty_sends_raw_input
    [where a = example_agent and user_input = question and w = order_general_world
       and intent_response = "u ''order, general''"
       and ?w1.0 = "snd (call_gpt example_agent (intent_prompt question) 0 order_general_world)"
       and responses = "[u ''Order #W001 is delivered. Tracking link: ''
          @ u ''https://tools.usps.com/go/TrackConfirmAction?tLabels=TRK123456789'']"
       and ?a2.0 = example_agent
       and ?w2.0 = "snd (snd (run_handlers example_agent (parse_intents (u ''order, general'')) question
          (snd (call_gpt example_agent (intent_prompt question) 0 order_general_world))))"]
  by (simp add: handle_def call_gpt_def call_gpt_and_update_history_def create_def completion_text_def
        run_handlers_def handle_order_info_def input_def order_info_def
        order_general_world_def john_lines_def question_def
        example_world_fields provider_def example_agent_fields example_orders_def example_order_fields
        example_strip example_parse u_eq_iff u_append Let_def)

text \<open>
  The classifier answers \<open>early_riser, order\<close>: the order fragment still comes first in
  the compiled message, the promo fragment second.
\<close>

theorem fragments_compiled_in_fixed_order_witness:
  "fst (call_gpt example_agent (intent_prompt question) 0 promo_order_world) = u ''early_riser, order''
 \<and> parse_intents (u ''early_riser, order'') = [u ''early_riser'', u ''order'']
 \<and> fst (run_handlers example_agent [u ''early_riser'', u ''order''] question
      (snd (call_gpt example_agent (intent_prompt question) 0 promo_order_world))) =
     Inr [u ''Order #W001 is delivered. Tracking link: ''
          @ u ''https://tools.usps.com/go/TrackConfirmAction?tLabels=TRK123456789'',
          u ''This user qualifies for the Early Riser promotion! ''
          @ u ''They may use discount code SIERRA-3F2A for 10% off.'']
 \<and> map content (messages (last (api_calls (snd (snd (handle example_agent question
      promo_order_world)))))) =
     [system_prompt example_agent,
      u ''User question: Where is my order?. ''
      @ u ''Use the following information to best answer the user's question: ''
      @ u ''Order #W001 is delivered. Tracking link: ''
      @ u ''https://tools.usps.com/go/TrackConfirmAction?tLabels=TRK123456789\<newline>''
      @ u ''This user qualifies for the Early Riser promotion! ''
      @ u ''They may use discount code SIERRA-3F2A for 10% off.'']"
  using fragments_compiled_in_fixed_order
    [where a = example_agent and user_input = question and w = promo_order_world
       and intent_response = "u ''early_riser, order''"
       and intents = "[u ''early_riser'', u ''order'']"
       and ?w1.0 = "snd (call_gpt example_agent (intent_prompt question) 0 promo_order_world)"
       and responses = "[u ''Order #W001 is delivered. Tracking link: ''
          @ u ''https://tools.usps.com/go/TrackConfirmAction?tLabels=TRK123456789'',
          u ''This user qualifies for the Early Riser promotion! ''
          @ u ''They may use discount code SIERRA-3F2A for 10% off.'']"
       and ?a2.0 = example_agent
       and ?w2.0 = "snd (snd (run_handlers example_agent [u ''early_riser'', u ''order''] question
          (snd (call_gpt example_agent (intent_prompt question) 0 promo_order_world))))"]
  by (simp add: handle_def call_gpt_def call_gpt_and_update_history_def create_def completion_text_def
        run_handlers_def handle_order_info_def input_def order_info_def handle_early_riser_promo_def
        compiled_prompt_def example_code promo_order_world_def john_lines_def question_def
        example_world_fields provider_def example_agent_fields example_orders_def example_order_fields
        example_strip example_parse u_eq_iff u_append Let_def)

lemma example_mixed:
  "strip (u ''GENERAL, order'') = u ''GENERAL, order''"
  "parse_intents (u ''GENERAL, order'') = [u ''GENERAL'', u ''order'']"
  "ascii_lower (u ''order'') = u ''order''"
  by (simp_all add: parse_intents_def strip_def is_space_def ascii_lower_def u_def)

text \<open>
  The classifier answers \<open>GENERAL, order\<close>: the order handler runs and the chat call gets
  the compiled message, as for \<open>order\<close> alone. It answers \<open>Order, GENERAL\<close>: no handler
  runs (the console lines are still unread) and the chat call gets the question as
  typed.
\<close>

theorem case_variants_are_ignored_witness:
  "fst (call_gpt example_agent (intent_prompt question) 0 mixed_case_world) = u ''GENERAL, order''
 \<and> parse_intents (u ''GENERAL, order'') = [u ''GENERAL'', u ''order'']
 \<and> case_variant (u ''GENERAL'') \<and> \<not> case_variant (u ''order'')
 \<and> filter (\<lambda>t. \<not> case_variant t) [u ''GENERAL'', u ''order''] = [u ''order'']
 \<and> fst (run_handlers example_agent [u ''GENERAL'', u ''order''] question
      (snd (call_gpt example_agent (intent_prompt question) 0 mixed_case_world))) =
     Inr [u ''Order #W001 is delivered. Tracking link: ''
          @ u ''https://tools.usps.com/go/TrackConfirmAction?tLabels=TRK123456789'']
 \<and> map content (messages (last (api_calls (snd (snd (handle example_agent question
      mixed_case_world)))))) =
     [system_prompt example_agent,
      u ''User question: Where is my order?. ''
      @ u ''Use the following information to best answer the user's question: ''
      @ u ''Order #W001 is delivered. Tracking link: ''
      @ u ''https://tools.usps.com/go/TrackConfirmAction?tLabels=TRK123456789'']
 \<and> fst (call_gpt example_agent (intent_prompt question) 0 case_variant_world) = u ''Order, GENERAL''
 \<and> parse_intents (u ''Order, GENERAL'') = [u ''Order'', u ''GENERAL'']
 \<and> case_variant (u ''Order'')
 \<and> fst (run_handlers example_agent [u ''Order'', u ''GENERAL''] question
      (snd (call_gpt example_agent (intent_prompt question) 0 case_variant_world))) = Inr []
 \<and> stdin (snd (snd (handle example_agent question case_variant_world))) =
     [u ''john.doe@example.com'', u ''#W001'']
 \<and> map content (messages (last (api_calls (snd (snd (handle example_agent question
      case_variant_world)))))) =
     [system_prompt example_agent, u ''Where is my order?'']"
proof -
  let ?w1 = "snd (call_gpt example_agent (intent_prompt question) 0 mixed_case_world)"
  let ?v1 = "snd (call_gpt example_agent (intent_prompt question) 0 case_variant_world)"
  have reply: "fst (call_gpt example_agent (intent_prompt question) 0 mixed_case_world) =
      u ''GENERAL, order''"
    by (simp add: call_gpt_def create_def completion_text_def mixed_case_world_def
          example_world_fields provider_def example_mixed)
  then have call: "call_gpt example_agent (intent_prompt question) 0 mixed_case_world =
      (u ''GENERAL, order'', ?w1)"
    by (simp add: prod_eq_iff)
  have variants: "case_variant (u ''GENERAL'')" "\<not> case_variant (u ''order'')"
    "case_variant (u ''Order'')"
    by (simp_all add: case_variant_def intent_labels_def example_lower example_mixed u_eq_iff)
  then have kept: "filter (\<lambda>t. \<not> case_variant t) [u ''GENERAL'', u ''order''] = [u ''order'']"
    by simp
  note mixed = case_variants_are_ignored
    [OF call example_mixed(2) [symmetric] kept [symmetric]]
  have run: "fst (run_handlers example_agent [u ''GENERAL'', u ''order''] question ?w1) =
     Inr [u ''Order #W001 is delivered. Tracking link: ''
          @ u ''https://tools.usps.com/go/TrackConfirmAction?tLabels=TRK123456789'']"
    by (simp add: call_gpt_def create_def completion_text_def run_handlers_def handle_order_info_def
          input_def order_info_def mixed_case_world_def john_lines_def
          example_world_fields provider_def example_agent_fields example_orders_def
          example_order_fields example_mixed u_eq_iff u_append Let_def)
  from mixed have "handle example_agent question mixed_case_world =
      (case run_handlers example_agent [u ''order''] question ?w1 of
              (Inl e, a2, w2) \<Rightarrow> (Inl e, a2, w2)
            | (Inr responses, a2, w2) \<Rightarrow>
                (if responses = [] \<or> u ''general'' \<in> set [u ''order''] then
                   (case call_gpt_and_update_history a2 question w2 of
                      (reply, a3, w3) \<Rightarrow> (Inr reply, a3, w3))
                 else
                   (case call_gpt_and_update_history a2
                           (compiled_prompt question (str_join (u ''\<newline>'') responses)) w2 of
                      (reply, a3, w3) \<Rightarrow> (Inr reply, a3, w3))))"
    by (rule conjunct1 [OF conjunct2 [OF conjunct2 [OF conjunct2]]])
  then have sent: "map content (messages (last (api_calls (snd (snd (handle example_agent question
      mixed_case_world)))))) =
     [system_prompt example_agent,
      u ''User question: Where is my order?. ''
      @ u ''Use the following information to best answer the user's question: ''
      @ u ''Order #W001 is delivered. Tracking link: ''
      @ u ''https://tools.usps.com/go/TrackConfirmAction?tLabels=TRK123456789'']"
    by (simp add: call_gpt_def call_gpt_and_update_history_def create_def completion_text_def
          run_handlers_def handle_order_info_def input_def order_info_def compiled_prompt_def
          mixed_case_world_def john_lines_def question_def
          example_world_fields provider_def example_agent_fields example_orders_def
          example_order_fields example_strip example_mixed u_eq_iff u_append Let_def)
  have reply': "fst (call_gpt example_agent (intent_prompt question) 0 case_variant_world) =
      u ''Order, GENERAL''"
    by (simp add: call_gpt_def create_def completion_text_def case_variant_world_def
          example_world_fields provider_def example_strip)
  then have call': "call_gpt example_agent (intent_prompt question) 0 case_variant_world =
      (u ''Order, GENERAL'', ?v1)"
    by (simp add: prod_eq_iff)
  have kept': "filter (\<lambda>t. \<not> case_variant t) [u ''Order'', u ''GENERAL''] = []"
    using variants by simp
  note every = case_variants_are_ignored
    [OF call' example_parse(3) [symmetric] kept' [symmetric]]
  from every have "(\<forall>t\<in>set [u ''Order'', u ''GENERAL'']. case_variant t) \<longrightarrow>
        run_handlers example_agent [u ''Order'', u ''GENERAL''] question ?v1 =
        (Inr [], example_agent, ?v1)
      \<and> u ''general'' \<notin> set [u ''Order'', u ''GENERAL'']
      \<and> handle example_agent question case_variant_world =
          (case call_gpt_and_update_history example_agent question ?v1 of
             (reply, a3, w3) \<Rightarrow> (Inr reply, a3, w3))"
    by (rule conjunct2 [OF conjunct2 [OF conjunct2 [OF conjunct2]]])
  moreover have "\<forall>t\<in>set [u ''Order'', u ''GENERAL'']. case_variant t"
    using variants by simp
  ultimately have all: "run_handlers example_agent [u ''Order'', u ''GENERAL''] question ?v1 =
        (Inr [], example_agent, ?v1)
      \<and> u ''general'' \<notin> set [u ''Order'', u ''GENERAL'']
      \<and> handle example_agent question case_variant_world =
          (case call_gpt_and_update_history example_agent question ?v1 of
             (reply, a3, w3) \<Rightarrow> (Inr reply, a3, w3))"
    by (rule mp)
  then have run': "fst (run_handlers example_agent [u ''Order'', u ''GENERAL''] question ?v1) = Inr []"
    by simp
  from all have unread: "stdin (snd (snd (handle example_agent question case_variant_world))) =
     [u ''john.doe@example.com'', u ''#W001'']"
    by (simp add: call_gpt_def call_gpt_and_update_history_def create_def completion_text_def
          case_variant_world_def john_lines_def example_world_fields provider_def example_strip
          Let_def)
  from all have sent': "map content (messages (last (api_calls (snd (snd (handle example_agent
      question case_variant_world)))))) = [system_prompt example_agent, u ''Where is my order?'']"
    by (simp add: call_gpt_def call_gpt_and_update_history_def create_def completion_text_def
          case_variant_world_def john_lines_def question_def example_world_fields provider_def
          example_strip example_agent_fields Let_def)
  show ?thesis
    by (intro conjI reply example_mixed(2) variants kept run sent reply' example_parse(3)
          run' unread sent')
qed

end
